theory Spec2Isabelle
  imports Main "HOL-Library.Word" "HOL-Library.Signed_Division"
begin

section \<open>Values shared by both source files\<close>

text \<open>
  Package \<open>natsmq\<close> is glue around the NATS and NATS-streaming client libraries. The
  libraries themselves are not part of the sources, so every library call is a field of
  the environment record \<open>env\<close> below and every theorem is stated for an arbitrary
  environment. What the package's own code does with the results of those calls is
  modelled line by line.
\<close>

subsection \<open>Durations and timestamps\<close>

text \<open>
  Go's \<open>int64\<close>; a \<open>time.Duration\<close> is an \<open>int64\<close> count of nanoseconds and
  \<open>time.Now().Unix()\<close> is an \<open>int64\<close> count of seconds.
\<close>

type_synonym int64 = "64 word"
type_synonym Duration = int64

definition Second :: Duration where
  "Second = 1000000000"

definition Minute :: Duration where
  "Minute = 60 * Second"

text \<open>
  Go's \<open>/\<close> on signed integers truncates towards zero. The only division in the
  sources has the divisor \<open>10 * time.Second\<close>, so the panic on a zero divisor does not
  arise.
\<close>

definition int64_div :: "int64 \<Rightarrow> int64 \<Rightarrow> int64" where
  "int64_div a b = word_of_int (sint a sdiv sint b)"

subsection \<open>Errors, handles and loggers\<close>

text \<open>A Go \<open>error\<close> value, identified by its message.\<close>

datatype error = Error string

text \<open>Handles to objects owned by the client libraries.\<close>

datatype nats_conn = NatsConnHandle nat
datatype encoded_conn = EncodedConnHandle nat
datatype stan_conn = StanConnHandle nat
datatype opentracing_tracer = TracerHandle nat

text \<open>
  A \<open>*zap.SugaredLogger\<close> is identified by the chain of names given to it;
  \<open>Named\<close> makes the child logger.
\<close>

datatype zap_logger = SugaredLogger "string list"

fun Named :: "zap_logger \<Rightarrow> string \<Rightarrow> zap_logger" where
  "Named (SugaredLogger ns) n = SugaredLogger (ns @ [n])"

datatype log_method = Debugw | Infow | Warnf | Errorf | Errorw

datatype log_arg = AStr string | AErr error | ABool bool

subsection \<open>Options of the two transports\<close>

text \<open>
  A \<open>nats.Option\<close>. The four handler options carry the logger their closure captures;
  the closures only write a log line. \<open>nats_OtherOption\<close> stands for any option the
  caller put into the configuration that this package does not build itself.
\<close>

datatype nats_option =
    nats_ReconnectWait Duration
  | nats_MaxReconnects int
  | nats_DisconnectErrHandler zap_logger Duration
  | nats_ReconnectHandler zap_logger
  | nats_ClosedHandler zap_logger
  | nats_ErrorHandler zap_logger
  | nats_OtherOption nat

text \<open>A \<open>stan.Option\<close>, in the same way.\<close>

datatype stan_option =
    stan_SetConnectionLostHandler zap_logger
  | stan_Pings int int
  | stan_NatsConn "nats_conn option"
  | stan_PubAckWait Duration
  | stan_OtherOption nat

text \<open>
  \<open>stan.DefaultAckWait\<close>; the source states its value in the comment beside its use
  (\<open>30 * time.Second\<close>).
\<close>

definition stan_DefaultAckWait :: Duration where
  "stan_DefaultAckWait = 30 * Second"

datatype encoder = JSON_ENCODER

subsection \<open>The unique-id generator\<close>

text \<open>
  A \<open>*nuid.NUID\<close> is a mutable generator of package \<open>nuid\<close>. Its state is modelled
  by the sequence of operations applied to it since \<open>nuid.New()\<close>: any two states of
  the real generator that this package can tell apart differ in that sequence.
\<close>

datatype nuid_op = RandomizePrefix | Next

type_synonym NUID = "nuid_op list"

definition nuid_New :: NUID where
  "nuid_New = []"

subsection \<open>Effects\<close>

text \<open>
  Everything the package does to the outside world is a call into a library. The calls
  are recorded, in order, in a trace.
\<close>

datatype ack_handler = DefaultAckHandlerOf zap_logger

datatype 'd event =
    Log zap_logger log_method string "log_arg list"
  | NatsConnectCall string "nats_option list"
  | NewEncodedConnCall "nats_conn option" encoder
  | StanConnectCall string string "stan_option list"
  | MarshalCall 'd
  | PublishCall stan_conn string string
  | PublishAsyncCall stan_conn string string ack_handler
  | CloseCall stan_conn

type_synonym 'd trace = "'d event list"

definition emit :: "'d event \<Rightarrow> 'd trace \<Rightarrow> 'd trace" where
  "emit e w = w @ [e]"

definition zap_log :: "zap_logger \<Rightarrow> log_method \<Rightarrow> string \<Rightarrow> log_arg list \<Rightarrow> 'd trace \<Rightarrow> 'd trace" where
  "zap_log lg m msg args w = emit (Log lg m msg args) w"

text \<open>
  A Go call either returns or panics. This package recovers from no panic, so a panic
  inside a call it makes is a panic of the calling function. Two calls of the package
  can panic: a method call on a nil \<open>stan.Conn\<close> interface value, and
  \<open>json.Marshal\<close>, which runs the \<open>MarshalJSON\<close> method of the payload and passes
  on a panic raised there.
\<close>

datatype 'a outcome = Returned 'a | Panicked

text \<open>
  The results of the library calls. A Go call returning \<open>(x, err)\<close> returns a pair whose
  second component is \<open>None\<close> for a nil error; a nil pointer or interface is \<open>None\<close>.
  The payload type \<open>'d\<close> is whatever Go value the caller passes as \<open>interface{}\<close>.
\<close>

record 'd env =
  nats_Connect :: "string \<Rightarrow> nats_option list \<Rightarrow> nats_conn option \<times> error option"
  nats_NewEncodedConn :: "nats_conn option \<Rightarrow> encoder \<Rightarrow> encoded_conn option \<times> error option"
  stan_Connect :: "string \<Rightarrow> string \<Rightarrow> stan_option list \<Rightarrow> stan_conn option \<times> error option"
  time_Now_Unix :: int64
  json_Marshal :: "'d \<Rightarrow> (string \<times> error option) outcome"
  conn_Publish :: "stan_conn \<Rightarrow> string \<Rightarrow> string \<Rightarrow> error option"
  conn_PublishAsync :: "stan_conn \<Rightarrow> string \<Rightarrow> string \<Rightarrow> string \<times> error option"
  conn_Close :: "stan_conn \<Rightarrow> error option"
  nuid_string :: "NUID \<Rightarrow> string"

section \<open>Configuration\<close>

text \<open>
  Modelled from the spec: the declaration of the \<open>Config\<close> struct is not among the
  sources. Its fields are the ones the two source files read and write; the spec lists
  them as broker address, cluster identifier, client identifier base string, ack-timeout
  duration, option lists for both transport layers, logger and tracing handles.
\<close>

record Config =
  Broker :: string
  ClusterId :: string
  ClientId :: string
  AckTimeout :: Duration
  NatsConn :: "nats_option list"
  StanConn :: "stan_option list"
  Logger :: zap_logger
  Tracer :: "opentracing_tracer option"

section \<open>The connection factory\<close>

definition setupDefaultNatsConnOptions :: "zap_logger \<Rightarrow> nats_option list \<Rightarrow> nats_option list" where
  "setupDefaultNatsConnOptions lg opts =
     (let totalWait = 10 * Minute;
          reconnectDelay = 10 * Second;
          opts = opts @ [nats_ReconnectWait reconnectDelay];
          opts = opts @ [nats_MaxReconnects (sint (int64_div totalWait reconnectDelay))];
          opts = opts @ [nats_DisconnectErrHandler lg totalWait];
          opts = opts @ [nats_ReconnectHandler lg];
          opts = opts @ [nats_ClosedHandler lg];
          opts = opts @ [nats_ErrorHandler lg]
      in opts)"

text \<open>
  \<open>NewConn\<close> takes a pointer to the configuration and assigns to its \<open>NatsConn\<close>
  field, so the model returns the configuration as the caller finds it afterwards,
  beside the two results and the trace.
\<close>

definition NewConn :: "'d env \<Rightarrow> Config \<Rightarrow> 'd trace \<Rightarrow> (nats_conn option \<times> error option) \<times> Config \<times> 'd trace" where
  "NewConn env c w =
     (let c = c\<lparr>NatsConn := setupDefaultNatsConnOptions (Named (Logger c) ''nats'') (NatsConn c)\<rparr>;
          w = emit (NatsConnectCall (Broker c) (NatsConn c)) w;
          (nc, err) = nats_Connect env (Broker c) (NatsConn c)
      in if err \<noteq> None then ((None, err), c, w)
         else ((nc, None), c, w))"

definition NewEncodedConn :: "'d env \<Rightarrow> Config \<Rightarrow> 'd trace \<Rightarrow> (encoded_conn option \<times> error option) \<times> Config \<times> 'd trace" where
  "NewEncodedConn env c w =
     (let ((nc, err), c, w) = NewConn env c w
      in if err \<noteq> None then ((None, err), c, w)
         else
           let w = emit (NewEncodedConnCall nc JSON_ENCODER) w;
               (encoded, err) = nats_NewEncodedConn env nc JSON_ENCODER
           in if err \<noteq> None then ((None, err), c, w)
              else
                let w = zap_log (Logger c) Infow ''Successfully created nats.EncodedConn''
                          [AStr ''broker'', AStr (Broker c)] w
                in ((encoded, None), c, w))"

section \<open>The streaming connection\<close>

text \<open>
  \<open>fmt.Sprintf("%d", n)\<close> for an \<open>int64\<close>: the decimal digits, most significant
  first, after a minus sign when the number is negative.
\<close>

definition digit_char :: "nat \<Rightarrow> char" where
  "digit_char d = char_of (48 + d)"

fun format_nat :: "nat \<Rightarrow> string" where
  "format_nat n = (if n < 10 then [digit_char n] else format_nat (n div 10) @ [digit_char (n mod 10)])"

declare format_nat.simps [simp del]

definition format_d :: "int64 \<Rightarrow> string" where
  "format_d n = (if sint n < 0 then CHR ''-'' # format_nat (nat (- sint n)) else format_nat (nat (sint n)))"

text \<open>\<open>fmt.Sprintf("%s-%d", s, n)\<close>.\<close>

definition Sprintf_s_d :: "string \<Rightarrow> int64 \<Rightarrow> string" where
  "Sprintf_s_d s n = s @ ''-'' @ format_d n"

text \<open>
  The struct \<open>StanConn\<close>. Its \<open>client\<close> field is an interface value that the
  methods test against nil, so it is an option. The \<open>logger\<close> and \<open>nuid\<close> pointers
  are read only behind that test, and \<open>NewStanConn\<close>, the one place that sets
  \<open>client\<close>, sets them too; they are modelled as always present.
\<close>

record StanConn =
  clientId :: string
  client :: "stan_conn option"
  tracer :: "opentracing_tracer option"
  logger :: zap_logger
  nuid :: NUID

definition NewStanConn :: "'d env \<Rightarrow> Config \<Rightarrow> 'd trace \<Rightarrow> (StanConn option \<times> error option) \<times> Config \<times> 'd trace" where
  "NewStanConn env c w =
     (let s = \<lparr>clientId = Sprintf_s_d (ClientId c) (time_Now_Unix env),
               client = None,
               tracer = Tracer c,
               logger = Named (Logger c) ''nats-streaming'',
               nuid = nuid_New\<rparr>;
          ((nc, err), c, w) = NewConn env c w
      in case err of
           Some e \<Rightarrow>
             let w = zap_log (logger s) Errorw ''Failed to set nats server connection''
                       [AStr ''broker'', AStr (Broker c), AStr ''err'', AErr e] w
             in ((None, err), c, w)
         | None \<Rightarrow>
             let c = c\<lparr>StanConn := StanConn c @ [stan_SetConnectionLostHandler (logger s)]\<rparr>;
                 c = c\<lparr>StanConn := StanConn c @ [stan_Pings 15 5]\<rparr>;
                 c = c\<lparr>StanConn := StanConn c @ [stan_NatsConn nc]\<rparr>;
                 c = (if 0 < sint (AckTimeout c)
                      then c\<lparr>StanConn := StanConn c @ [stan_PubAckWait (AckTimeout c)]\<rparr>
                      else c\<lparr>StanConn := StanConn c @ [stan_PubAckWait stan_DefaultAckWait]\<rparr>);
                 w = emit (StanConnectCall (ClusterId c) (clientId s) (StanConn c)) w;
                 (sc, err) = stan_Connect env (ClusterId c) (clientId s) (StanConn c)
             in (case err of
                  Some e \<Rightarrow>
                    let w = zap_log (logger s) Errorw ''Failed to set stan connection''
                              [AStr ''client_id'', AStr (clientId s),
                               AStr ''cluster_id'', AStr (ClusterId c), AStr ''err'', AErr e] w
                    in ((None, err), c, w)
                | None \<Rightarrow>
                    let s = s\<lparr>client := sc\<rparr>;
                        w = zap_log (logger s) Infow ''Initialized nats-streaming conn''
                              [AStr ''broker'', AStr (Broker c),
                               AStr ''cluster_id'', AStr (ClusterId c),
                               AStr ''client_id'', AStr (ClientId c)] w
                    in ((Some s, None), c, w)))"

text \<open>
  Method calls on the \<open>client\<close> field, a \<open>stan.Conn\<close> interface value: on nil they
  panic, otherwise they reach the library.
\<close>

definition client_Close :: "'d env \<Rightarrow> stan_conn option \<Rightarrow> 'd trace \<Rightarrow> (error option \<times> 'd trace) outcome" where
  "client_Close env cl w =
     (case cl of
        None \<Rightarrow> Panicked
      | Some h \<Rightarrow> Returned (conn_Close env h, emit (CloseCall h) w))"

definition client_Publish :: "'d env \<Rightarrow> stan_conn option \<Rightarrow> string \<Rightarrow> string \<Rightarrow> 'd trace \<Rightarrow> (error option \<times> 'd trace) outcome" where
  "client_Publish env cl channel payload w =
     (case cl of
        None \<Rightarrow> Panicked
      | Some h \<Rightarrow> Returned (conn_Publish env h channel payload, emit (PublishCall h channel payload) w))"

definition client_PublishAsync :: "'d env \<Rightarrow> stan_conn option \<Rightarrow> string \<Rightarrow> string \<Rightarrow> ack_handler \<Rightarrow> 'd trace \<Rightarrow> ((string \<times> error option) \<times> 'd trace) outcome" where
  "client_PublishAsync env cl channel payload ah w =
     (case cl of
        None \<Rightarrow> Panicked
      | Some h \<Rightarrow> Returned (conn_PublishAsync env h channel payload, emit (PublishAsyncCall h channel payload ah) w))"

text \<open>The two operations of the generator that the package calls.\<close>

definition nuid_RandomizePrefix :: "NUID \<Rightarrow> NUID" where
  "nuid_RandomizePrefix n = n @ [RandomizePrefix]"

definition nuid_Next :: "'d env \<Rightarrow> NUID \<Rightarrow> string \<times> NUID" where
  "nuid_Next env n = (let n = n @ [Next] in (nuid_string env n, n))"

definition Stop :: "'d env \<Rightarrow> StanConn \<Rightarrow> 'd trace \<Rightarrow> 'd trace outcome" where
  "Stop env sc w =
     (if client sc \<noteq> None then
        let w = zap_log (logger sc) Debugw ''Closing connection''
                  [AStr ''client_id'', AStr (clientId sc)] w
        in case client_Close env (client sc) w of
             Panicked \<Rightarrow> Panicked
           | Returned (err, w) \<Rightarrow>
               (case err of
                  Some e \<Rightarrow>
                    Returned (zap_log (logger sc) Errorw ''Unable to stop nats-streaming server connection''
                                [AStr ''client_id'', AStr (clientId sc), AStr ''err'', AErr e] w)
                | None \<Rightarrow> Returned w)
      else Returned w)"

definition DefaultAckHandler :: "StanConn \<Rightarrow> string \<Rightarrow> error option \<Rightarrow> 'd trace \<Rightarrow> 'd trace" where
  "DefaultAckHandler sc nid err w =
     (case err of
        Some e \<Rightarrow> zap_log (logger sc) Errorw ''Error publishing message''
                    [AStr ''guid'', AStr nid, AStr ''err'', AErr e] w
      | None \<Rightarrow> zap_log (logger sc) Infow ''Received ack for message''
                  [AStr ''nuid'', AStr nid] w)"

text \<open>
  The two send operations have no result. The model returns the connection object as it
  is afterwards (the generator behind the \<open>nuid\<close> pointer may have advanced) and the
  trace.
\<close>

definition SendMessage :: "'d env \<Rightarrow> StanConn \<Rightarrow> string \<Rightarrow> 'd \<Rightarrow> 'd trace \<Rightarrow> (StanConn \<times> 'd trace) outcome" where
  "SendMessage env sc channel data w =
     (if client sc = None then Returned (sc, w)
      else
        let w = emit (MarshalCall data) w
        in case json_Marshal env data of
             Panicked \<Rightarrow> Panicked
           | Returned (payload, err) \<Rightarrow>
               (case err of
                  Some e \<Rightarrow>
                    Returned (sc, zap_log (logger sc) Errorf ''Unable to marshal data: %s'' [AErr e] w)
                | None \<Rightarrow>
                    (case client_Publish env (client sc) channel payload w of
                       Panicked \<Rightarrow> Panicked
                     | Returned (err, w) \<Rightarrow>
                         (case err of
                            Some e \<Rightarrow>
                              Returned (sc, zap_log (logger sc) Errorw ''Error publishing message''
                                              [AStr ''client_id'', AStr (clientId sc),
                                               AStr ''chan'', AStr channel, AStr ''err'', AErr e] w)
                          | None \<Rightarrow>
                              let (guid, n) = nuid_Next env (nuid sc);
                                  sc = sc\<lparr>nuid := n\<rparr>
                              in Returned (sc, zap_log (logger sc) Infow ''Sent message''
                                                 [AStr ''chan'', AStr channel, AStr ''guid'', AStr guid,
                                                  AStr ''async'', ABool False] w)))))"

definition SendAsyncMessage :: "'d env \<Rightarrow> StanConn \<Rightarrow> string \<Rightarrow> 'd \<Rightarrow> 'd trace \<Rightarrow> (StanConn \<times> 'd trace) outcome" where
  "SendAsyncMessage env sc channel data w =
     (if client sc = None then Returned (sc, w)
      else
        let w = emit (MarshalCall data) w
        in case json_Marshal env data of
             Panicked \<Rightarrow> Panicked
           | Returned (payload, err) \<Rightarrow>
               (case err of
                  Some e \<Rightarrow>
                    Returned (sc, zap_log (logger sc) Errorf ''Unable to marshal data: %s'' [AErr e] w)
                | None \<Rightarrow>
                    (case client_PublishAsync env (client sc) channel payload
                            (DefaultAckHandlerOf (logger sc)) w of
                       Panicked \<Rightarrow> Panicked
                     | Returned ((nid, err), w) \<Rightarrow>
                         (case err of
                            Some e \<Rightarrow>
                              Returned (sc, zap_log (logger sc) Errorw ''Error publishing''
                                              [AStr ''chan'', AStr channel,
                                               AStr ''client_id'', AStr (clientId sc),
                                               AStr ''err'', AErr e] w)
                          | None \<Rightarrow>
                              let sc = sc\<lparr>nuid := nuid_RandomizePrefix (nuid sc)\<rparr>;
                                  (guid, n) = nuid_Next env (nuid sc);
                                  sc = sc\<lparr>nuid := n\<rparr>
                              in Returned (sc, zap_log (logger sc) Infow ''Published''
                                                 [AStr ''chan'', AStr channel, AStr ''nuid'', AStr nid,
                                                  AStr ''guid'', AStr guid,
                                                  AStr ''async'', ABool True] w)))))"

section \<open>A concrete environment\<close>

text \<open>
  One environment and one configuration on which the theorems below are instantiated.
  Payloads are texts, a Go channel, which \<open>encoding/json\<close> cannot marshal, or a
  value whose \<open>MarshalJSON\<close> method panics. The broker
  at \<open>nats://localhost:4222\<close> accepts connections and any other address refuses them;
  the cluster \<open>test-cluster\<close> exists; publishing to the channel \<open>closed\<close> fails; the
  connection with handle 2 fails to close.
\<close>

datatype example_payload = Text string | Channel | PanickingMarshaler

definition example_env :: "example_payload env" where
  "example_env =
     \<lparr>nats_Connect = (\<lambda>broker opts.
        if broker = ''nats://localhost:4222'' then (Some (NatsConnHandle 1), None)
        else (None, Some (Error ''nats: no servers available for connection''))),
      nats_NewEncodedConn = (\<lambda>nc enc.
        case nc of
          Some (NatsConnHandle n) \<Rightarrow> (Some (EncodedConnHandle n), None)
        | None \<Rightarrow> (None, Some (Error ''nats: invalid connection''))),
      stan_Connect = (\<lambda>cluster cid opts.
        if cluster = ''test-cluster'' then (Some (StanConnHandle 1), None)
        else (None, Some (Error ''stan: connect request timeout''))),
      time_Now_Unix = 1700000000,
      json_Marshal = (\<lambda>d.
        case d of
          Text t \<Rightarrow> Returned (t, None)
        | Channel \<Rightarrow> Returned ([], Some (Error ''json: unsupported type: chan int''))
        | PanickingMarshaler \<Rightarrow> Panicked),
      conn_Publish = (\<lambda>h channel payload.
        if channel = ''closed'' then Some (Error ''stan: connection closed'') else None),
      conn_PublishAsync = (\<lambda>h channel payload.
        if channel = ''closed'' then ([], Some (Error ''stan: connection closed''))
        else (''nid-1'', None)),
      conn_Close = (\<lambda>h.
        if h = StanConnHandle 2 then Some (Error ''stan: close request timeout'') else None),
      nuid_string = (\<lambda>n. ''guid'')\<rparr>"

definition example_Config :: Config where
  "example_Config =
     \<lparr>Broker = ''nats://localhost:4222'',
      ClusterId = ''test-cluster'',
      ClientId = ''svc'',
      AckTimeout = 5 * Second,
      NatsConn = [],
      StanConn = [],
      Logger = SugaredLogger [],
      Tracer = None\<rparr>"

definition example_StanConn :: StanConn where
  "example_StanConn =
     \<lparr>clientId = ''svc-1700000000'',
      client = Some (StanConnHandle 1),
      tracer = None,
      logger = SugaredLogger [''nats-streaming''],
      nuid = []\<rparr>"

text \<open>The same environment one second later.\<close>

definition example_env_later :: "example_payload env" where
  "example_env_later = example_env\<lparr>time_Now_Unix := 1700000001\<rparr>"

section \<open>Decimal formatting is injective\<close>

lemma format_nat_not_Nil: "format_nat n \<noteq> []"
  by (subst format_nat.simps) simp

lemma last_format_nat: "last (format_nat n) = digit_char (n mod 10)"
  by (subst format_nat.simps) simp

lemma butlast_format_nat:
  "butlast (format_nat n) = (if n < 10 then [] else format_nat (n div 10))"
  by (subst format_nat.simps) simp

lemma of_char_digit_char: "d < 10 \<Longrightarrow> (of_char (digit_char d) :: nat) = 48 + d"
  by (simp add: digit_char_def)

lemma digit_char_inj:
  assumes "a < 10" and "b < 10" and "digit_char a = digit_char b"
  shows "a = b"
proof -
  from assms(3) have "(of_char (digit_char a) :: nat) = of_char (digit_char b)"
    by simp
  with assms(1,2) show ?thesis
    by (simp add: of_char_digit_char)
qed

lemma digit_char_not_minus:
  assumes "d < 10"
  shows "digit_char d \<noteq> CHR ''-''"
proof
  assume "digit_char d = CHR ''-''"
  then have "(of_char (digit_char d) :: nat) = of_char CHR ''-''"
    by simp
  with assms show False
    by (simp add: of_char_digit_char)
qed

lemma format_nat_inj: "format_nat n = format_nat m \<Longrightarrow> n = m"
proof (induction n arbitrary: m rule: less_induct)
  case (less n)
  from less.prems have l: "last (format_nat n) = last (format_nat m)"
    and b: "butlast (format_nat n) = butlast (format_nat m)"
    by simp_all
  from l have "digit_char (n mod 10) = digit_char (m mod 10)"
    by (simp add: last_format_nat)
  then have md: "n mod 10 = m mod 10"
    by (rule digit_char_inj [rotated 2]) simp_all
  show ?case
  proof (cases "n < 10")
    case True
    with b have "m < 10"
      using format_nat_not_Nil [of "m div 10"]
      by (auto simp: butlast_format_nat split: if_splits)
    with True md show ?thesis by simp
  next
    case False
    with b have m: "\<not> m < 10"
      using format_nat_not_Nil [of "n div 10"]
      by (auto simp: butlast_format_nat split: if_splits)
    with False b have "format_nat (n div 10) = format_nat (m div 10)"
      by (simp add: butlast_format_nat)
    moreover from False have "n div 10 < n" by simp
    ultimately have "n div 10 = m div 10"
      by (rule less.IH [rotated])
    with md show ?thesis
      by (metis div_mult_mod_eq)
  qed
qed

lemma hd_format_nat: "hd (format_nat n) \<noteq> CHR ''-''"
proof (induction n rule: less_induct)
  case (less n)
  show ?case
  proof (cases "n < 10")
    case True
    then show ?thesis
      by (subst format_nat.simps) (simp add: digit_char_not_minus)
  next
    case False
    then have "n div 10 < n" by simp
    then have "hd (format_nat (n div 10)) \<noteq> CHR ''-''" by (rule less.IH)
    with False show ?thesis
      by (subst format_nat.simps) (simp add: format_nat_not_Nil)
  qed
qed

lemma format_d_inj: "format_d a = format_d b \<Longrightarrow> a = b"
proof -
  assume eq: "format_d a = format_d b"
  have neg: "CHR ''-'' # format_nat x \<noteq> format_nat y" for x y
    using hd_format_nat [of y] by (cases "format_nat y") (auto simp: format_nat_not_Nil)
  have "sint a = sint b"
  proof (cases "sint a < 0")
    case True
    show ?thesis
    proof (cases "sint b < 0")
      case True
      with \<open>sint a < 0\<close> eq have "nat (- sint a) = nat (- sint b)"
        by (simp add: format_d_def format_nat_inj)
      with True \<open>sint a < 0\<close> show ?thesis by simp
    next
      case False
      with True eq neg show ?thesis by (simp add: format_d_def)
    qed
  next
    case False
    show ?thesis
    proof (cases "sint b < 0")
      case True
      with False eq neg [of "nat (- sint b)" "nat (sint a)"] show ?thesis
        by (simp add: format_d_def)
    next
      case b: False
      with False eq have "nat (sint a) = nat (sint b)"
        by (simp add: format_d_def format_nat_inj)
      with False b show ?thesis by simp
    qed
  qed
  then show ?thesis by (rule signed_word_eqI)
qed

lemma Sprintf_s_d_inj: "Sprintf_s_d s a = Sprintf_s_d s b \<Longrightarrow> a = b"
  by (simp add: Sprintf_s_d_def format_d_inj)

section \<open>What the factory functions compute\<close>

lemma int64_div_policy: "sint (int64_div (10 * Minute) (10 * Second)) = 60"
  by (simp add: int64_div_def Minute_def Second_def signed_divide_int_def)

lemma setupDefaultNatsConnOptions_eq:
  "setupDefaultNatsConnOptions lg opts =
     opts @ [nats_ReconnectWait (10 * Second), nats_MaxReconnects 60,
             nats_DisconnectErrHandler lg (10 * Minute), nats_ReconnectHandler lg,
             nats_ClosedHandler lg, nats_ErrorHandler lg]"
  by (simp add: setupDefaultNatsConnOptions_def int64_div_policy)

lemma NewConn_eq:
  "NewConn env c w =
     (let opts = setupDefaultNatsConnOptions (Named (Logger c) ''nats'') (NatsConn c);
          r = nats_Connect env (Broker c) opts
      in ((if snd r \<noteq> None then None else fst r, snd r),
          c\<lparr>NatsConn := opts\<rparr>,
          w @ [NatsConnectCall (Broker c) opts]))"
  by (simp add: NewConn_def Let_def emit_def split: prod.split)

lemma NewEncodedConn_eq:
  "NewEncodedConn env c w =
     (let opts = setupDefaultNatsConnOptions (Named (Logger c) ''nats'') (NatsConn c);
          c' = c\<lparr>NatsConn := opts\<rparr>;
          w1 = w @ [NatsConnectCall (Broker c) opts];
          r = nats_Connect env (Broker c) opts
      in if snd r \<noteq> None then ((None, snd r), c', w1)
         else
           let w2 = w1 @ [NewEncodedConnCall (fst r) JSON_ENCODER];
               r2 = nats_NewEncodedConn env (fst r) JSON_ENCODER
           in if snd r2 \<noteq> None then ((None, snd r2), c', w2)
              else ((fst r2, None), c',
                    w2 @ [Log (Logger c) Infow ''Successfully created nats.EncodedConn''
                            [AStr ''broker'', AStr (Broker c)]]))"
proof -
  define opts where "opts = setupDefaultNatsConnOptions (Named (Logger c) ''nats'') (NatsConn c)"
  obtain nc err where r: "nats_Connect env (Broker c) opts = (nc, err)"
    by (cases "nats_Connect env (Broker c) opts")
  obtain enc err2 where r2: "nats_NewEncodedConn env nc JSON_ENCODER = (enc, err2)"
    by (cases "nats_NewEncodedConn env nc JSON_ENCODER")
  have n: "NewConn env c w =
      ((if err \<noteq> None then None else nc, err), c\<lparr>NatsConn := opts\<rparr>,
       w @ [NatsConnectCall (Broker c) opts])"
    unfolding NewConn_eq Let_def opts_def [symmetric] r by simp
  show ?thesis
    unfolding NewEncodedConn_def n Let_def opts_def [symmetric] r
    by (simp add: r2 emit_def zap_log_def)
qed

lemma NewStanConn_eq:
  "NewStanConn env c w =
     (let opts = setupDefaultNatsConnOptions (Named (Logger c) ''nats'') (NatsConn c);
          lg = Named (Logger c) ''nats-streaming'';
          cid = Sprintf_s_d (ClientId c) (time_Now_Unix env);
          c1 = c\<lparr>NatsConn := opts\<rparr>;
          w1 = w @ [NatsConnectCall (Broker c) opts];
          r = nats_Connect env (Broker c) opts
      in case snd r of
           Some e \<Rightarrow>
             ((None, Some e), c1,
              w1 @ [Log lg Errorw ''Failed to set nats server connection''
                      [AStr ''broker'', AStr (Broker c), AStr ''err'', AErr e]])
         | None \<Rightarrow>
             let sopts = StanConn c @
                   [stan_SetConnectionLostHandler lg, stan_Pings 15 5, stan_NatsConn (fst r),
                    stan_PubAckWait (if 0 < sint (AckTimeout c) then AckTimeout c
                                     else stan_DefaultAckWait)];
                 c2 = c\<lparr>NatsConn := opts, StanConn := sopts\<rparr>;
                 w2 = w1 @ [StanConnectCall (ClusterId c) cid sopts];
                 r2 = stan_Connect env (ClusterId c) cid sopts
             in (case snd r2 of
                   Some e \<Rightarrow>
                     ((None, Some e), c2,
                      w2 @ [Log lg Errorw ''Failed to set stan connection''
                              [AStr ''client_id'', AStr cid, AStr ''cluster_id'',
                               AStr (ClusterId c), AStr ''err'', AErr e]])
                 | None \<Rightarrow>
                     ((Some \<lparr>clientId = cid, client = fst r2, tracer = Tracer c,
                             logger = lg, nuid = nuid_New\<rparr>, None), c2,
                      w2 @ [Log lg Infow ''Initialized nats-streaming conn''
                              [AStr ''broker'', AStr (Broker c), AStr ''cluster_id'',
                               AStr (ClusterId c), AStr ''client_id'', AStr (ClientId c)]])))"
proof -
  define opts where "opts = setupDefaultNatsConnOptions (Named (Logger c) ''nats'') (NatsConn c)"
  define cid where "cid = Sprintf_s_d (ClientId c) (time_Now_Unix env)"
  define ack where "ack = (if 0 < sint (AckTimeout c) then AckTimeout c else stan_DefaultAckWait)"
  obtain nc err where r: "nats_Connect env (Broker c) opts = (nc, err)"
    by (cases "nats_Connect env (Broker c) opts")
  define sopts where "sopts = StanConn c @
     [stan_SetConnectionLostHandler (Named (Logger c) ''nats-streaming''), stan_Pings 15 5,
      stan_NatsConn nc, stan_PubAckWait ack]"
  obtain sc err2 where r2: "stan_Connect env (ClusterId c) cid sopts = (sc, err2)"
    by (cases "stan_Connect env (ClusterId c) cid sopts")
  have n: "NewConn env c w =
      ((if err \<noteq> None then None else nc, err), c\<lparr>NatsConn := opts\<rparr>,
       w @ [NatsConnectCall (Broker c) opts])"
    unfolding NewConn_eq Let_def opts_def [symmetric] r by simp
  have lhs: "NewStanConn env c w =
     (case err of
        Some e \<Rightarrow>
          ((None, Some e), c\<lparr>NatsConn := opts\<rparr>,
           w @ [NatsConnectCall (Broker c) opts,
                Log (Named (Logger c) ''nats-streaming'') Errorw ''Failed to set nats server connection''
                  [AStr ''broker'', AStr (Broker c), AStr ''err'', AErr e]])
      | None \<Rightarrow>
          (case err2 of
             Some e \<Rightarrow>
               ((None, Some e), c\<lparr>NatsConn := opts, StanConn := sopts\<rparr>,
                w @ [NatsConnectCall (Broker c) opts, StanConnectCall (ClusterId c) cid sopts,
                     Log (Named (Logger c) ''nats-streaming'') Errorw ''Failed to set stan connection''
                       [AStr ''client_id'', AStr cid, AStr ''cluster_id'',
                        AStr (ClusterId c), AStr ''err'', AErr e]])
           | None \<Rightarrow>
               ((Some \<lparr>clientId = cid, client = sc, tracer = Tracer c,
                       logger = Named (Logger c) ''nats-streaming'', nuid = nuid_New\<rparr>, None),
                c\<lparr>NatsConn := opts, StanConn := sopts\<rparr>,
                w @ [NatsConnectCall (Broker c) opts, StanConnectCall (ClusterId c) cid sopts,
                     Log (Named (Logger c) ''nats-streaming'') Infow ''Initialized nats-streaming conn''
                       [AStr ''broker'', AStr (Broker c), AStr ''cluster_id'',
                        AStr (ClusterId c), AStr ''client_id'', AStr (ClientId c)]])))"
  proof (cases "0 < sint (AckTimeout c)")
    case True
    then have a: "ack = AckTimeout c" by (simp add: ack_def)
    from True r2 show ?thesis
      unfolding NewStanConn_def n opts_def [symmetric] cid_def [symmetric]
      by (simp add: Let_def emit_def zap_log_def sopts_def a split: option.split)
  next
    case False
    then have a: "ack = stan_DefaultAckWait" by (simp add: ack_def)
    from False r2 show ?thesis
      unfolding NewStanConn_def n opts_def [symmetric] cid_def [symmetric]
      by (simp add: Let_def emit_def zap_log_def sopts_def a split: option.split)
  qed
  show ?thesis
    unfolding lhs
    unfolding Let_def opts_def [symmetric] cid_def [symmetric] ack_def [symmetric] r fst_conv snd_conv
      sopts_def [symmetric] r2
    by (simp split: option.split)
qed

section \<open>What the send operations and \<open>Stop\<close> compute, branch by branch\<close>

lemma SendMessage_nil_client:
  "client sc = None \<Longrightarrow> SendMessage env sc channel data w = Returned (sc, w)"
  by (simp add: SendMessage_def)

lemma SendAsyncMessage_nil_client:
  "client sc = None \<Longrightarrow> SendAsyncMessage env sc channel data w = Returned (sc, w)"
  by (simp add: SendAsyncMessage_def)

lemma SendMessage_marshal_panic:
  "client sc = Some h \<Longrightarrow> json_Marshal env data = Panicked \<Longrightarrow>
   SendMessage env sc channel data w = Panicked"
  by (simp add: SendMessage_def)

lemma SendAsyncMessage_marshal_panic:
  "client sc = Some h \<Longrightarrow> json_Marshal env data = Panicked \<Longrightarrow>
   SendAsyncMessage env sc channel data w = Panicked"
  by (simp add: SendAsyncMessage_def)

lemma SendMessage_marshal_error:
  "client sc = Some h \<Longrightarrow> json_Marshal env data = Returned (payload, Some e) \<Longrightarrow>
   SendMessage env sc channel data w =
     Returned (sc, w @ [MarshalCall data,
                        Log (logger sc) Errorf ''Unable to marshal data: %s'' [AErr e]])"
  by (simp add: SendMessage_def emit_def zap_log_def)

lemma SendAsyncMessage_marshal_error:
  "client sc = Some h \<Longrightarrow> json_Marshal env data = Returned (payload, Some e) \<Longrightarrow>
   SendAsyncMessage env sc channel data w =
     Returned (sc, w @ [MarshalCall data,
                        Log (logger sc) Errorf ''Unable to marshal data: %s'' [AErr e]])"
  by (simp add: SendAsyncMessage_def emit_def zap_log_def)

lemma SendMessage_publish_error:
  "client sc = Some h \<Longrightarrow> json_Marshal env data = Returned (payload, None) \<Longrightarrow>
   conn_Publish env h channel payload = Some e \<Longrightarrow>
   SendMessage env sc channel data w =
     Returned (sc, w @ [MarshalCall data, PublishCall h channel payload,
                        Log (logger sc) Errorw ''Error publishing message''
                          [AStr ''client_id'', AStr (clientId sc),
                           AStr ''chan'', AStr channel, AStr ''err'', AErr e]])"
  by (simp add: SendMessage_def client_Publish_def emit_def zap_log_def)

lemma SendMessage_published:
  "client sc = Some h \<Longrightarrow> json_Marshal env data = Returned (payload, None) \<Longrightarrow>
   conn_Publish env h channel payload = None \<Longrightarrow>
   SendMessage env sc channel data w =
     Returned (sc\<lparr>nuid := nuid sc @ [Next]\<rparr>,
               w @ [MarshalCall data, PublishCall h channel payload,
                    Log (logger sc) Infow ''Sent message''
                      [AStr ''chan'', AStr channel,
                       AStr ''guid'', AStr (nuid_string env (nuid sc @ [Next])),
                       AStr ''async'', ABool False]])"
  by (simp add: SendMessage_def client_Publish_def nuid_Next_def Let_def emit_def zap_log_def)

lemma SendAsyncMessage_publish_error:
  "client sc = Some h \<Longrightarrow> json_Marshal env data = Returned (payload, None) \<Longrightarrow>
   conn_PublishAsync env h channel payload = (nid, Some e) \<Longrightarrow>
   SendAsyncMessage env sc channel data w =
     Returned (sc, w @ [MarshalCall data,
                        PublishAsyncCall h channel payload (DefaultAckHandlerOf (logger sc)),
                        Log (logger sc) Errorw ''Error publishing''
                          [AStr ''chan'', AStr channel,
                           AStr ''client_id'', AStr (clientId sc), AStr ''err'', AErr e]])"
  by (simp add: SendAsyncMessage_def client_PublishAsync_def emit_def zap_log_def)

lemma SendAsyncMessage_published:
  "client sc = Some h \<Longrightarrow> json_Marshal env data = Returned (payload, None) \<Longrightarrow>
   conn_PublishAsync env h channel payload = (nid, None) \<Longrightarrow>
   SendAsyncMessage env sc channel data w =
     Returned (sc\<lparr>nuid := nuid sc @ [RandomizePrefix, Next]\<rparr>,
               w @ [MarshalCall data,
                    PublishAsyncCall h channel payload (DefaultAckHandlerOf (logger sc)),
                    Log (logger sc) Infow ''Published''
                      [AStr ''chan'', AStr channel, AStr ''nuid'', AStr nid,
                       AStr ''guid'', AStr (nuid_string env (nuid sc @ [RandomizePrefix, Next])),
                       AStr ''async'', ABool True]])"
  by (simp add: SendAsyncMessage_def client_PublishAsync_def nuid_Next_def
        nuid_RandomizePrefix_def Let_def emit_def zap_log_def)

lemma Stop_nil_client: "client sc = None \<Longrightarrow> Stop env sc w = Returned w"
  by (simp add: Stop_def)

lemma Stop_client:
  "client sc = Some h \<Longrightarrow>
   Stop env sc w =
     Returned (w @ [Log (logger sc) Debugw ''Closing connection''
                      [AStr ''client_id'', AStr (clientId sc)],
                    CloseCall h] @
               (case conn_Close env h of
                  Some e \<Rightarrow>
                    [Log (logger sc) Errorw ''Unable to stop nats-streaming server connection''
                       [AStr ''client_id'', AStr (clientId sc), AStr ''err'', AErr e]]
                | None \<Rightarrow> []))"
  by (simp add: Stop_def client_Close_def Let_def emit_def zap_log_def split: option.split)

lemma NewStanConn_clientId:
  assumes "fst (NewStanConn env c w) = (Some s, err)"
  shows "clientId s = Sprintf_s_d (ClientId c) (time_Now_Unix env)"
    and "\<exists>opts. StanConnectCall (ClusterId c) (clientId s) opts \<in> set (snd (snd (NewStanConn env c w)))"
  using assms
  by (auto simp: NewStanConn_eq Let_def split: option.splits)

section \<open>The example configuration, evaluated\<close>

lemma digit_char_values:
  "digit_char 0 = CHR ''0''" "digit_char 1 = CHR ''1''" "digit_char 2 = CHR ''2''"
  "digit_char 3 = CHR ''3''" "digit_char 4 = CHR ''4''" "digit_char 5 = CHR ''5''"
  "digit_char 6 = CHR ''6''" "digit_char 7 = CHR ''7''" "digit_char 8 = CHR ''8''"
  "digit_char 9 = CHR ''9''" "digit_char (Suc 0) = CHR ''1''"
  unfolding digit_char_def by code_simp+

lemma example_format_d:
  "format_d 1700000000 = ''1700000000''"
  "format_d 1700000001 = ''1700000001''"
  by (simp_all add: format_d_def format_nat.simps digit_char_values)

lemma example_NewStanConn:
  "fst (NewStanConn example_env example_Config []) = (Some example_StanConn, None)"
  by (simp add: NewStanConn_eq Let_def example_env_def example_Config_def example_StanConn_def
        Sprintf_s_d_def example_format_d nuid_New_def)

lemma example_NewStanConn_later:
  "fst (NewStanConn example_env_later example_Config []) =
     (Some (example_StanConn\<lparr>clientId := ''svc-1700000001''\<rparr>), None)"
  by (simp add: NewStanConn_eq Let_def example_env_later_def example_env_def example_Config_def
        example_StanConn_def Sprintf_s_d_def example_format_d nuid_New_def)

section \<open>The claims\<close>

text \<open>
  C3. The connection factory gives the transport a reconnect delay of 10 seconds and a
  maximum number of reconnect attempts equal to the total wait divided by that delay,
  600 s / 10 s = 60, on every invocation: these two options follow whatever options the
  caller configured, in the list that \<open>NewConn\<close> passes to \<open>nats.Connect\<close>.
\<close>

theorem reconnect_policy:
  "setupDefaultNatsConnOptions lg opts =
     opts @ [nats_ReconnectWait (10 * Second), nats_MaxReconnects 60,
             nats_DisconnectErrHandler lg (600 * Second), nats_ReconnectHandler lg,
             nats_ClosedHandler lg, nats_ErrorHandler lg]
   \<and> sint (int64_div (600 * Second) (10 * Second)) = 60
   \<and> snd (snd (NewConn env c w)) =
       w @ [NatsConnectCall (Broker c)
              (NatsConn c @ [nats_ReconnectWait (10 * Second), nats_MaxReconnects 60,
                 nats_DisconnectErrHandler (Named (Logger c) ''nats'') (600 * Second),
                 nats_ReconnectHandler (Named (Logger c) ''nats''),
                 nats_ClosedHandler (Named (Logger c) ''nats''),
                 nats_ErrorHandler (Named (Logger c) ''nats'')])]"
proof -
  have m: "10 * Minute = 600 * Second"
    by (simp add: Minute_def)
  show ?thesis
    by (simp add: NewConn_eq Let_def setupDefaultNatsConnOptions_eq m int64_div_policy [unfolded m])
qed

text \<open>
  C1, as stated, fails: the sends do not recover from a panic, and \<open>json.Marshal\<close>
  passes on a panic raised by the payload's \<open>MarshalJSON\<close> method. On such a payload
  both sends panic, after the marshal call and before any publish.
\<close>

theorem send_panics_when_marshal_panics_counterexample:
  "client example_StanConn = Some (StanConnHandle 1)
   \<and> json_Marshal example_env PanickingMarshaler = Panicked
   \<and> SendMessage example_env example_StanConn ''orders'' PanickingMarshaler [] = Panicked
   \<and> SendAsyncMessage example_env example_StanConn ''orders'' PanickingMarshaler [] = Panicked"
proof -
  have c: "client example_StanConn = Some (StanConnHandle 1)"
    by (simp add: example_StanConn_def)
  have m: "json_Marshal example_env PanickingMarshaler = Panicked"
    by (simp add: example_env_def)
  from c m SendMessage_marshal_panic [OF c m] SendAsyncMessage_marshal_panic [OF c m]
  show ?thesis by simp
qed

text \<open>
  C1, as amended. For every channel and every payload on which \<open>json.Marshal\<close>
  returns, with a result or with an error, \<open>SendMessage\<close> and \<open>SendAsyncMessage\<close>
  complete normally, whatever error \<open>json.Marshal\<close> and the publish call return:
  each returns to its caller (it does not panic and has no result in which an error could
  travel), and the connection object is afterwards the one it was, up to the state of
  the id generator.
\<close>

theorem send_never_surfaces_error:
  assumes "json_Marshal env data = Returned (payload, err)"
  shows "(\<exists>n w'. SendMessage env sc channel data w = Returned (sc\<lparr>nuid := n\<rparr>, w'))
         \<and> (\<exists>n w'. SendAsyncMessage env sc channel data w = Returned (sc\<lparr>nuid := n\<rparr>, w'))"
proof -
  note m = assms
  have same: "sc = sc\<lparr>nuid := nuid sc\<rparr>"
    by simp
  have sync: "\<exists>n w'. SendMessage env sc channel data w = Returned (sc\<lparr>nuid := n\<rparr>, w')"
  proof (cases "client sc")
    case None
    from SendMessage_nil_client [OF this] same show ?thesis by metis
  next
    case (Some h)
    show ?thesis
    proof (cases err)
      case e: (Some e)
      from SendMessage_marshal_error [OF Some m [unfolded e]] same show ?thesis by metis
    next
      case None
      show ?thesis
      proof (cases "conn_Publish env h channel payload")
        case p: None
        from SendMessage_published [OF Some m [unfolded None] p] show ?thesis by blast
      next
        case p: (Some e)
        from SendMessage_publish_error [OF Some m [unfolded None] p] same show ?thesis by metis
      qed
    qed
  qed
  have async: "\<exists>n w'. SendAsyncMessage env sc channel data w = Returned (sc\<lparr>nuid := n\<rparr>, w')"
  proof (cases "client sc")
    case None
    from SendAsyncMessage_nil_client [OF this] same show ?thesis by metis
  next
    case (Some h)
    show ?thesis
    proof (cases err)
      case e: (Some e)
      from SendAsyncMessage_marshal_error [OF Some m [unfolded e]] same show ?thesis by metis
    next
      case None
      obtain nid aerr where pa: "conn_PublishAsync env h channel payload = (nid, aerr)"
        by (cases "conn_PublishAsync env h channel payload")
      show ?thesis
      proof (cases aerr)
        case p: None
        from SendAsyncMessage_published [OF Some m [unfolded None] pa [unfolded p]]
        show ?thesis by blast
      next
        case p: (Some e)
        from SendAsyncMessage_publish_error [OF Some m [unfolded None] pa [unfolded p]] same
        show ?thesis by metis
      qed
    qed
  qed
  from sync async show ?thesis ..
qed

text \<open>
  The same at a payload that \<open>json.Marshal\<close> rejects with an error, and at a text on a
  channel where publishing fails.
\<close>

theorem send_never_surfaces_error_witness:
  "json_Marshal example_env Channel =
     Returned ([], Some (Error ''json: unsupported type: chan int''))
   \<and> json_Marshal example_env (Text ''x'') = Returned (''x'', None)
   \<and> conn_Publish example_env (StanConnHandle 1) ''closed'' ''x'' =
       Some (Error ''stan: connection closed'')
   \<and> (\<exists>n w'. SendMessage example_env example_StanConn ''closed'' Channel [] =
             Returned (example_StanConn\<lparr>nuid := n\<rparr>, w'))
   \<and> (\<exists>n w'. SendAsyncMessage example_env example_StanConn ''closed'' Channel [] =
             Returned (example_StanConn\<lparr>nuid := n\<rparr>, w'))
   \<and> (\<exists>n w'. SendMessage example_env example_StanConn ''closed'' (Text ''x'') [] =
             Returned (example_StanConn\<lparr>nuid := n\<rparr>, w'))
   \<and> (\<exists>n w'. SendAsyncMessage example_env example_StanConn ''closed'' (Text ''x'') [] =
             Returned (example_StanConn\<lparr>nuid := n\<rparr>, w'))"
proof -
  have a: "json_Marshal example_env Channel =
      Returned ([], Some (Error ''json: unsupported type: chan int''))"
    and b: "json_Marshal example_env (Text ''x'') = Returned (''x'', None)"
    and p: "conn_Publish example_env (StanConnHandle 1) ''closed'' ''x'' =
      Some (Error ''stan: connection closed'')"
    by (simp_all add: example_env_def)
  from a b p
    send_never_surfaces_error [OF a, of example_StanConn "''closed''" "[]"]
    send_never_surfaces_error [OF b, of example_StanConn "''closed''" "[]"]
  show ?thesis by blast
qed

text \<open>
  C10. When the streaming client handle is nil, \<open>SendMessage\<close> and
  \<open>SendAsyncMessage\<close> return at once: the trace is the one before the call (no
  marshalling, no publish, no log line) and the connection object is unchanged.
\<close>

theorem nil_client_is_silent_noop:
  "client sc = None \<Longrightarrow>
   SendMessage env sc channel data w = Returned (sc, w)
   \<and> SendAsyncMessage env sc channel data w = Returned (sc, w)"
  by (simp add: SendMessage_nil_client SendAsyncMessage_nil_client)

text \<open>
  The same on the example connection with its client handle set to nil.
\<close>

theorem nil_client_is_silent_noop_witness:
  "client (example_StanConn\<lparr>client := None\<rparr>) = None
   \<and> SendMessage example_env (example_StanConn\<lparr>client := None\<rparr>) ''orders'' (Text ''x'') [] =
       Returned (example_StanConn\<lparr>client := None\<rparr>, [])
   \<and> SendAsyncMessage example_env (example_StanConn\<lparr>client := None\<rparr>) ''orders'' Channel [] =
       Returned (example_StanConn\<lparr>client := None\<rparr>, [])"
proof -
  have h: "client (example_StanConn\<lparr>client := None\<rparr>) = None"
    by simp
  from nil_client_is_silent_noop [OF h, of example_env "''orders''" "Text ''x''" "[]"]
    nil_client_is_silent_noop [OF h, of example_env "''orders''" Channel "[]"]
  show ?thesis using h by blast
qed

text \<open>
  C5. When \<open>json.Marshal\<close> fails on the payload, \<open>SendMessage\<close> and
  \<open>SendAsyncMessage\<close> log the marshal error and return: after the call to
  \<open>json.Marshal\<close> the only event is the log line, so the publish operation of the
  transport is not invoked. (The marshal call is reached when the client handle is not
  nil.)
\<close>

theorem marshal_failure_drops_message:
  assumes "client sc = Some h"
    and "json_Marshal env data = Returned (payload, Some e)"
  shows "SendMessage env sc channel data w =
           Returned (sc, w @ [MarshalCall data,
                              Log (logger sc) Errorf ''Unable to marshal data: %s'' [AErr e]])
         \<and> SendAsyncMessage env sc channel data w =
           Returned (sc, w @ [MarshalCall data,
                              Log (logger sc) Errorf ''Unable to marshal data: %s'' [AErr e]])"
  using assms by (simp add: SendMessage_marshal_error SendAsyncMessage_marshal_error)

text \<open>
  The same for a Go channel as payload.
\<close>

theorem marshal_failure_drops_message_witness:
  "client example_StanConn = Some (StanConnHandle 1)
   \<and> json_Marshal example_env Channel = Returned ([], Some (Error ''json: unsupported type: chan int''))
   \<and> SendMessage example_env example_StanConn ''orders'' Channel [] =
       Returned (example_StanConn,
         [MarshalCall Channel,
          Log (SugaredLogger [''nats-streaming'']) Errorf ''Unable to marshal data: %s''
            [AErr (Error ''json: unsupported type: chan int'')]])
   \<and> SendAsyncMessage example_env example_StanConn ''orders'' Channel [] =
       Returned (example_StanConn,
         [MarshalCall Channel,
          Log (SugaredLogger [''nats-streaming'']) Errorf ''Unable to marshal data: %s''
            [AErr (Error ''json: unsupported type: chan int'')]])"
proof -
  have c: "client example_StanConn = Some (StanConnHandle 1)"
    by (simp add: example_StanConn_def)
  have m: "json_Marshal example_env Channel = Returned ([], Some (Error ''json: unsupported type: chan int''))"
    by (simp add: example_env_def)
  have l: "logger example_StanConn = SugaredLogger [''nats-streaming'']"
    by (simp add: example_StanConn_def)
  from marshal_failure_drops_message [OF c m, of "''orders''" "[]"] c m l
  show ?thesis by simp
qed

text \<open>
  C6. \<open>Stop\<close> never propagates a failure. With a nil client handle it does nothing.
  With a client whose \<open>Close\<close> returns an error (as it may when the connection is
  already closed), the error goes into one \<open>Errorw\<close> log line after the close call
  and \<open>Stop\<close> returns. In every case \<open>Stop\<close> returns, and it has no result in
  which an error could travel.
\<close>

theorem Stop_swallows_close_error:
  "(client sc = None \<longrightarrow> Stop env sc w = Returned w)
   \<and> (\<forall>h e. client sc = Some h \<and> conn_Close env h = Some e \<longrightarrow>
         Stop env sc w =
           Returned (w @ [Log (logger sc) Debugw ''Closing connection''
                            [AStr ''client_id'', AStr (clientId sc)],
                          CloseCall h,
                          Log (logger sc) Errorw ''Unable to stop nats-streaming server connection''
                            [AStr ''client_id'', AStr (clientId sc), AStr ''err'', AErr e]]))
   \<and> (\<exists>w'. Stop env sc w = Returned w')"
proof -
  have "\<exists>w'. Stop env sc w = Returned w'"
    by (cases "client sc") (simp_all add: Stop_nil_client Stop_client)
  then show ?thesis
    by (simp add: Stop_nil_client Stop_client)
qed

text \<open>
  The same on the example connection, once with a nil client and once with a client
  whose \<open>Close\<close> fails.
\<close>

theorem Stop_swallows_close_error_witness:
  "Stop example_env (example_StanConn\<lparr>client := None\<rparr>) [] = Returned []
   \<and> conn_Close example_env (StanConnHandle 2) = Some (Error ''stan: close request timeout'')
   \<and> Stop example_env (example_StanConn\<lparr>client := Some (StanConnHandle 2)\<rparr>) [] =
       Returned [Log (SugaredLogger [''nats-streaming'']) Debugw ''Closing connection''
                   [AStr ''client_id'', AStr ''svc-1700000000''],
                 CloseCall (StanConnHandle 2),
                 Log (SugaredLogger [''nats-streaming'']) Errorw
                   ''Unable to stop nats-streaming server connection''
                   [AStr ''client_id'', AStr ''svc-1700000000'',
                    AStr ''err'', AErr (Error ''stan: close request timeout'')]]"
proof -
  have c: "conn_Close example_env (StanConnHandle 2) = Some (Error ''stan: close request timeout'')"
    by (simp add: example_env_def)
  have f: "logger example_StanConn = SugaredLogger [''nats-streaming'']"
    "clientId example_StanConn = ''svc-1700000000''"
    by (simp_all add: example_StanConn_def)
  from Stop_swallows_close_error [of "example_StanConn\<lparr>client := None\<rparr>" example_env "[]"]
  have a: "Stop example_env (example_StanConn\<lparr>client := None\<rparr>) [] = Returned []"
    by simp
  from Stop_swallows_close_error
    [of "example_StanConn\<lparr>client := Some (StanConnHandle 2)\<rparr>" example_env "[]"] c
  have b: "Stop example_env (example_StanConn\<lparr>client := Some (StanConnHandle 2)\<rparr>) [] =
       Returned [Log (SugaredLogger [''nats-streaming'']) Debugw ''Closing connection''
                   [AStr ''client_id'', AStr ''svc-1700000000''],
                 CloseCall (StanConnHandle 2),
                 Log (SugaredLogger [''nats-streaming'']) Errorw
                   ''Unable to stop nats-streaming server connection''
                   [AStr ''client_id'', AStr ''svc-1700000000'',
                    AStr ''err'', AErr (Error ''stan: close request timeout'')]]"
    by (simp add: f)
  from a c b show ?thesis by simp
qed

text \<open>
  C9. In \<open>SendAsyncMessage\<close>, once the payload is marshalled, the id generator is
  changed exactly when \<open>PublishAsync\<close> returns no error: then its prefix is
  randomized and it is advanced once (\<open>RandomizePrefix\<close>, then \<open>Next\<close>); when
  \<open>PublishAsync\<close> returns an error the generator is as before.
\<close>

theorem async_publish_advances_generator:
  assumes "client sc = Some h"
    and "json_Marshal env data = Returned (payload, None)"
    and "conn_PublishAsync env h channel payload = (nid, err)"
  shows "\<exists>sc' w'. SendAsyncMessage env sc channel data w = Returned (sc', w')
           \<and> nuid sc' = (if err = None
                          then snd (nuid_Next env (nuid_RandomizePrefix (nuid sc)))
                          else nuid sc)
           \<and> (nuid sc' \<noteq> nuid sc) = (err = None)"
proof (cases err)
  case None
  from SendAsyncMessage_published [OF assms(1,2) assms(3) [unfolded None]] None
  show ?thesis
    by (simp add: nuid_Next_def nuid_RandomizePrefix_def Let_def)
next
  case (Some e)
  from SendAsyncMessage_publish_error [OF assms(1,2) assms(3) [unfolded Some]] Some
  show ?thesis
    by simp
qed

text \<open>
  The same on a channel where publishing succeeds and on one where it fails.
\<close>

theorem async_publish_advances_generator_witness:
  "(\<exists>sc' w'. SendAsyncMessage example_env example_StanConn ''orders'' (Text ''x'') [] = Returned (sc', w')
       \<and> nuid sc' = [RandomizePrefix, Next] \<and> nuid sc' \<noteq> nuid example_StanConn)
   \<and> (\<exists>sc' w'. SendAsyncMessage example_env example_StanConn ''closed'' (Text ''x'') [] = Returned (sc', w')
       \<and> nuid sc' = [] \<and> nuid sc' = nuid example_StanConn)"
proof -
  have c: "client example_StanConn = Some (StanConnHandle 1)"
    and n: "nuid example_StanConn = []"
    by (simp_all add: example_StanConn_def)
  have m: "json_Marshal example_env (Text ''x'') = Returned (''x'', None)"
    by (simp add: example_env_def)
  have ok: "conn_PublishAsync example_env (StanConnHandle 1) ''orders'' ''x'' = (''nid-1'', None)"
    by (simp add: example_env_def)
  have ko: "conn_PublishAsync example_env (StanConnHandle 1) ''closed'' ''x'' =
      ([], Some (Error ''stan: connection closed''))"
    by (simp add: example_env_def)
  from async_publish_advances_generator [OF c m ok, of "[]"]
  have a: "\<exists>sc' w'. SendAsyncMessage example_env example_StanConn ''orders'' (Text ''x'') [] = Returned (sc', w')
       \<and> nuid sc' = [RandomizePrefix, Next] \<and> nuid sc' \<noteq> nuid example_StanConn"
    by (simp add: n nuid_Next_def nuid_RandomizePrefix_def Let_def)
  from async_publish_advances_generator [OF c m ko, of "[]"]
  have b: "\<exists>sc' w'. SendAsyncMessage example_env example_StanConn ''closed'' (Text ''x'') [] = Returned (sc', w')
       \<and> nuid sc' = [] \<and> nuid sc' = nuid example_StanConn"
    by (simp add: n)
  from a b show ?thesis ..
qed

text \<open>
  C8. When establishing a connection fails, the factory functions return the error value
  of the transport as it is, beside a nil connection: \<open>NewConn\<close>,
  \<open>NewEncodedConn\<close> and \<open>NewStanConn\<close> when \<open>nats.Connect\<close> fails,
  \<open>NewEncodedConn\<close> when \<open>nats.NewEncodedConn\<close> fails, and \<open>NewStanConn\<close> when
  \<open>stan.Connect\<close> fails.
\<close>

theorem connection_errors_returned_unwrapped:
  fixes env :: "'d env" and w :: "'d trace" and c :: Config
  defines "opts \<equiv> setupDefaultNatsConnOptions (Named (Logger c) ''nats'') (NatsConn c)"
  defines "cid \<equiv> Sprintf_s_d (ClientId c) (time_Now_Unix env)"
  defines "sopts \<equiv> \<lambda>nc. StanConn c @
             [stan_SetConnectionLostHandler (Named (Logger c) ''nats-streaming''),
              stan_Pings 15 5, stan_NatsConn nc,
              stan_PubAckWait (if 0 < sint (AckTimeout c) then AckTimeout c
                               else stan_DefaultAckWait)]"
  shows "(\<forall>nc e. nats_Connect env (Broker c) opts = (nc, Some e) \<longrightarrow>
            fst (NewConn env c w) = (None, Some e)
            \<and> fst (NewEncodedConn env c w) = (None, Some e)
            \<and> fst (NewStanConn env c w) = (None, Some e))
         \<and> (\<forall>nc enc e. nats_Connect env (Broker c) opts = (nc, None)
               \<and> nats_NewEncodedConn env nc JSON_ENCODER = (enc, Some e) \<longrightarrow>
            fst (NewEncodedConn env c w) = (None, Some e))
         \<and> (\<forall>nc sc e. nats_Connect env (Broker c) opts = (nc, None)
               \<and> stan_Connect env (ClusterId c) cid (sopts nc) = (sc, Some e) \<longrightarrow>
            fst (NewStanConn env c w) = (None, Some e))"
  unfolding opts_def cid_def sopts_def
  by (simp add: NewConn_eq NewEncodedConn_eq NewStanConn_eq Let_def)


text \<open>
  The same for an unreachable broker, a failing encoder registration and an unknown
  cluster.
\<close>

theorem connection_errors_returned_unwrapped_witness:
  "fst (NewConn example_env (example_Config\<lparr>Broker := ''nats://down:4222''\<rparr>) []) =
     (None, Some (Error ''nats: no servers available for connection''))
   \<and> fst (NewEncodedConn example_env (example_Config\<lparr>Broker := ''nats://down:4222''\<rparr>) []) =
     (None, Some (Error ''nats: no servers available for connection''))
   \<and> fst (NewStanConn example_env (example_Config\<lparr>Broker := ''nats://down:4222''\<rparr>) []) =
     (None, Some (Error ''nats: no servers available for connection''))
   \<and> fst (NewEncodedConn
          (example_env\<lparr>nats_NewEncodedConn := \<lambda>nc enc. (None, Some (Error ''nats: no encoder''))\<rparr>)
          example_Config []) =
     (None, Some (Error ''nats: no encoder''))
   \<and> fst (NewStanConn example_env (example_Config\<lparr>ClusterId := ''other-cluster''\<rparr>) []) =
     (None, Some (Error ''stan: connect request timeout''))"
proof -
  from connection_errors_returned_unwrapped
    [of example_env "example_Config\<lparr>Broker := ''nats://down:4222''\<rparr>" "[]"]
  have a: "fst (NewConn example_env (example_Config\<lparr>Broker := ''nats://down:4222''\<rparr>) []) =
       (None, Some (Error ''nats: no servers available for connection''))
     \<and> fst (NewEncodedConn example_env (example_Config\<lparr>Broker := ''nats://down:4222''\<rparr>) []) =
       (None, Some (Error ''nats: no servers available for connection''))
     \<and> fst (NewStanConn example_env (example_Config\<lparr>Broker := ''nats://down:4222''\<rparr>) []) =
       (None, Some (Error ''nats: no servers available for connection''))"
    by (simp add: example_env_def example_Config_def)
  from connection_errors_returned_unwrapped
    [of "example_env\<lparr>nats_NewEncodedConn := \<lambda>nc enc. (None, Some (Error ''nats: no encoder''))\<rparr>"
        example_Config "[]"]
  have b: "fst (NewEncodedConn
          (example_env\<lparr>nats_NewEncodedConn := \<lambda>nc enc. (None, Some (Error ''nats: no encoder''))\<rparr>)
          example_Config []) =
     (None, Some (Error ''nats: no encoder''))"
    by (simp add: example_env_def example_Config_def)
  from connection_errors_returned_unwrapped
    [of example_env "example_Config\<lparr>ClusterId := ''other-cluster''\<rparr>" "[]"]
  have c: "fst (NewStanConn example_env (example_Config\<lparr>ClusterId := ''other-cluster''\<rparr>) []) =
     (None, Some (Error ''stan: connect request timeout''))"
    by (simp add: example_env_def example_Config_def)
  from a b c show ?thesis by simp
qed

text \<open>
  C4. Once the NATS connection stands, \<open>NewStanConn\<close> sets the publish ack-wait
  timeout to the configured \<open>AckTimeout\<close> when that is strictly positive and to
  \<open>stan.DefaultAckWait\<close> when it is zero or negative: the \<open>PubAckWait\<close> option with
  that value is the last of the four options appended to the configured ones, and the
  list is what \<open>stan.Connect\<close> receives. (When the NATS connection fails,
  \<open>NewStanConn\<close> returns before it sets any streaming option.)
\<close>

theorem ack_wait_configured_or_default:
  fixes env :: "'d env" and w :: "'d trace" and c :: Config
  defines "opts \<equiv> setupDefaultNatsConnOptions (Named (Logger c) ''nats'') (NatsConn c)"
  defines "cid \<equiv> Sprintf_s_d (ClientId c) (time_Now_Unix env)"
  defines "ack \<equiv> if 0 < sint (AckTimeout c) then AckTimeout c else stan_DefaultAckWait"
  assumes "nats_Connect env (Broker c) opts = (nc, None)"
  shows "StanConn (fst (snd (NewStanConn env c w))) =
           StanConn c @ [stan_SetConnectionLostHandler (Named (Logger c) ''nats-streaming''),
                         stan_Pings 15 5, stan_NatsConn nc, stan_PubAckWait ack]
         \<and> StanConnectCall (ClusterId c) cid
              (StanConn c @ [stan_SetConnectionLostHandler (Named (Logger c) ''nats-streaming''),
                             stan_Pings 15 5, stan_NatsConn nc, stan_PubAckWait ack])
             \<in> set (snd (snd (NewStanConn env c w)))"
  using assms(4) unfolding opts_def cid_def ack_def
  by (simp add: NewStanConn_eq Let_def split: option.split)

text \<open>
  The same for a timeout of five seconds, of zero and of minus one nanosecond.
\<close>

theorem ack_wait_configured_or_default_witness:
  "nats_Connect example_env (Broker example_Config)
      (setupDefaultNatsConnOptions (Named (Logger example_Config) ''nats'') (NatsConn example_Config)) =
     (Some (NatsConnHandle 1), None)
   \<and> StanConn (fst (snd (NewStanConn example_env example_Config []))) =
       [stan_SetConnectionLostHandler (SugaredLogger [''nats-streaming'']),
        stan_Pings 15 5, stan_NatsConn (Some (NatsConnHandle 1)), stan_PubAckWait (5 * Second)]
   \<and> StanConn (fst (snd (NewStanConn example_env (example_Config\<lparr>AckTimeout := 0\<rparr>) []))) =
       [stan_SetConnectionLostHandler (SugaredLogger [''nats-streaming'']),
        stan_Pings 15 5, stan_NatsConn (Some (NatsConnHandle 1)), stan_PubAckWait (30 * Second)]
   \<and> StanConn (fst (snd (NewStanConn example_env (example_Config\<lparr>AckTimeout := - 1\<rparr>) []))) =
       [stan_SetConnectionLostHandler (SugaredLogger [''nats-streaming'']),
        stan_Pings 15 5, stan_NatsConn (Some (NatsConnHandle 1)), stan_PubAckWait (30 * Second)]"
proof -
  have n: "nats_Connect example_env (Broker (example_Config\<lparr>AckTimeout := a\<rparr>))
      (setupDefaultNatsConnOptions (Named (Logger (example_Config\<lparr>AckTimeout := a\<rparr>)) ''nats'')
         (NatsConn (example_Config\<lparr>AckTimeout := a\<rparr>))) =
     (Some (NatsConnHandle 1), None)" for a
    by (simp add: example_env_def example_Config_def)
  have p: "(0::int) < sint (5 * Second)"
    by (simp add: Second_def)
  have e: "example_Config\<lparr>AckTimeout := 5 * Second\<rparr> = example_Config"
    by (simp add: example_Config_def)
  from ack_wait_configured_or_default [OF n [of "5 * Second"], of "[]"]
  have a: "StanConn (fst (snd (NewStanConn example_env example_Config []))) =
       [stan_SetConnectionLostHandler (SugaredLogger [''nats-streaming'']),
        stan_Pings 15 5, stan_NatsConn (Some (NatsConnHandle 1)), stan_PubAckWait (5 * Second)]"
    unfolding e using p by (simp add: example_Config_def)
  from ack_wait_configured_or_default [OF n [of 0], of "[]"]
  have b: "StanConn (fst (snd (NewStanConn example_env (example_Config\<lparr>AckTimeout := 0\<rparr>) []))) =
       [stan_SetConnectionLostHandler (SugaredLogger [''nats-streaming'']),
        stan_Pings 15 5, stan_NatsConn (Some (NatsConnHandle 1)), stan_PubAckWait (30 * Second)]"
    by (simp add: example_Config_def stan_DefaultAckWait_def)
  from ack_wait_configured_or_default [OF n [of "- 1"], of "[]"]
  have c: "StanConn (fst (snd (NewStanConn example_env (example_Config\<lparr>AckTimeout := - 1\<rparr>) []))) =
       [stan_SetConnectionLostHandler (SugaredLogger [''nats-streaming'']),
        stan_Pings 15 5, stan_NatsConn (Some (NatsConnHandle 1)), stan_PubAckWait (30 * Second)]"
    by (simp add: example_Config_def stan_DefaultAckWait_def)
  from n [of "5 * Second", unfolded e] a b c show ?thesis by simp
qed

text \<open>
  C7. \<open>NewStanConn\<close> derives the streaming client id from the configured base id and
  the Unix timestamp taken when it is called, as \<open>fmt.Sprintf("%s-%d", base, timestamp)\<close>:
  the base id, a hyphen, the timestamp in decimal. It is the id handed to \<open>stan.Connect\<close>.
  Two connects with the same base id at different timestamps get different client ids.
\<close>

theorem client_id_distinct_across_timestamps:
  assumes "fst (NewStanConn env1 c1 w1) = (Some s1, None)"
    and "fst (NewStanConn env2 c2 w2) = (Some s2, None)"
    and "ClientId c1 = ClientId c2"
    and "time_Now_Unix env1 \<noteq> time_Now_Unix env2"
  shows "clientId s1 = ClientId c1 @ ''-'' @ format_d (time_Now_Unix env1)
         \<and> clientId s2 = ClientId c2 @ ''-'' @ format_d (time_Now_Unix env2)
         \<and> clientId s1 \<noteq> clientId s2
         \<and> (\<exists>opts. StanConnectCall (ClusterId c1) (clientId s1) opts \<in> set (snd (snd (NewStanConn env1 c1 w1))))
         \<and> (\<exists>opts. StanConnectCall (ClusterId c2) (clientId s2) opts \<in> set (snd (snd (NewStanConn env2 c2 w2))))"
proof -
  have a: "clientId s1 = Sprintf_s_d (ClientId c1) (time_Now_Unix env1)"
    and b: "clientId s2 = Sprintf_s_d (ClientId c2) (time_Now_Unix env2)"
    using assms(1,2) by (simp_all add: NewStanConn_clientId(1))
  have "clientId s1 \<noteq> clientId s2"
    using assms(3,4) Sprintf_s_d_inj [of "ClientId c2" "time_Now_Unix env1" "time_Now_Unix env2"]
    by (auto simp: a b)
  with a b NewStanConn_clientId(2) [OF assms(1)] NewStanConn_clientId(2) [OF assms(2)]
  show ?thesis
    by (simp add: Sprintf_s_d_def)
qed

text \<open>The same for two connects one second apart.\<close>

theorem client_id_distinct_across_timestamps_witness:
  "fst (NewStanConn example_env example_Config []) = (Some example_StanConn, None)
   \<and> fst (NewStanConn example_env_later example_Config []) =
       (Some (example_StanConn\<lparr>clientId := ''svc-1700000001''\<rparr>), None)
   \<and> time_Now_Unix example_env \<noteq> time_Now_Unix example_env_later
   \<and> clientId example_StanConn = ''svc-1700000000''
   \<and> clientId example_StanConn \<noteq> clientId (example_StanConn\<lparr>clientId := ''svc-1700000001''\<rparr>)"
proof -
  have t: "time_Now_Unix example_env \<noteq> time_Now_Unix example_env_later"
    by (simp add: example_env_def example_env_later_def)
  from client_id_distinct_across_timestamps
    [OF example_NewStanConn example_NewStanConn_later refl t]
  have "clientId example_StanConn \<noteq> clientId (example_StanConn\<lparr>clientId := ''svc-1700000001''\<rparr>)"
    by blast
  with example_NewStanConn example_NewStanConn_later t show ?thesis
    by (simp add: example_StanConn_def)
qed

text \<open>
  C2, as amended. The factory changes nothing in the configuration it is given but the
  two option lists, and those only by appending. \<open>NewConn\<close> and \<open>NewEncodedConn\<close>
  append the six default options to \<open>NatsConn\<close>; \<open>NewStanConn\<close> does the same and,
  when the NATS connection succeeds, appends four options to \<open>StanConn\<close>. The options
  already in the lists and the fields \<open>Broker\<close>, \<open>ClusterId\<close>, \<open>ClientId\<close>,
  \<open>AckTimeout\<close>, \<open>Logger\<close> and \<open>Tracer\<close> are as before.
\<close>

theorem factory_changes_only_option_lists:
  fixes env :: "'d env" and w :: "'d trace" and c :: Config
  defines "opts \<equiv>
     NatsConn c @ [nats_ReconnectWait (10 * Second), nats_MaxReconnects 60,
                   nats_DisconnectErrHandler (Named (Logger c) ''nats'') (10 * Minute),
                   nats_ReconnectHandler (Named (Logger c) ''nats''),
                   nats_ClosedHandler (Named (Logger c) ''nats''),
                   nats_ErrorHandler (Named (Logger c) ''nats'')]"
  shows "fst (snd (NewConn env c w)) = c\<lparr>NatsConn := opts\<rparr>
         \<and> fst (snd (NewEncodedConn env c w)) = c\<lparr>NatsConn := opts\<rparr>
         \<and> fst (snd (NewStanConn env c w)) =
             (case nats_Connect env (Broker c) opts of
                (nc, Some e) \<Rightarrow> c\<lparr>NatsConn := opts\<rparr>
              | (nc, None) \<Rightarrow>
                  c\<lparr>NatsConn := opts,
                    StanConn := StanConn c @
                      [stan_SetConnectionLostHandler (Named (Logger c) ''nats-streaming''),
                       stan_Pings 15 5, stan_NatsConn nc,
                       stan_PubAckWait (if 0 < sint (AckTimeout c) then AckTimeout c
                                        else stan_DefaultAckWait)]\<rparr>)"
proof -
  have o: "setupDefaultNatsConnOptions (Named (Logger c) ''nats'') (NatsConn c) = opts"
    by (simp add: setupDefaultNatsConnOptions_eq opts_def)
  obtain nc err where r: "nats_Connect env (Broker c) opts = (nc, err)"
    by (cases "nats_Connect env (Broker c) opts")
  have a: "fst (snd (NewConn env c w)) = c\<lparr>NatsConn := opts\<rparr>"
    by (simp add: NewConn_eq Let_def o)
  have b: "fst (snd (NewEncodedConn env c w)) = c\<lparr>NatsConn := opts\<rparr>"
    by (simp add: NewEncodedConn_eq Let_def o)
  have c: "fst (snd (NewStanConn env c w)) =
             (case nats_Connect env (Broker c) opts of
                (nc, Some e) \<Rightarrow> c\<lparr>NatsConn := opts\<rparr>
              | (nc, None) \<Rightarrow>
                  c\<lparr>NatsConn := opts,
                    StanConn := StanConn c @
                      [stan_SetConnectionLostHandler (Named (Logger c) ''nats-streaming''),
                       stan_Pings 15 5, stan_NatsConn nc,
                       stan_PubAckWait (if 0 < sint (AckTimeout c) then AckTimeout c
                                        else stan_DefaultAckWait)]\<rparr>)"
    unfolding NewStanConn_eq Let_def o r
    by (cases err) (simp_all split: option.split)
  from a b c show ?thesis by simp
qed

text \<open>
  C2, as stated, fails: the factory writes to the configuration behind the pointer it
  receives. On the example configuration, whose option lists are empty, \<open>NewConn\<close>
  leaves six options in \<open>NatsConn\<close> and \<open>NewStanConn\<close> leaves four in
  \<open>StanConn\<close>.
\<close>

theorem factory_leaves_config_unchanged_counterexample:
  "NatsConn example_Config = []
   \<and> NatsConn (fst (snd (NewConn example_env example_Config []))) =
       [nats_ReconnectWait (10 * Second), nats_MaxReconnects 60,
        nats_DisconnectErrHandler (SugaredLogger [''nats'']) (10 * Minute),
        nats_ReconnectHandler (SugaredLogger [''nats'']),
        nats_ClosedHandler (SugaredLogger [''nats'']),
        nats_ErrorHandler (SugaredLogger [''nats''])]
   \<and> fst (snd (NewConn example_env example_Config [])) \<noteq> example_Config
   \<and> StanConn example_Config = []
   \<and> StanConn (fst (snd (NewStanConn example_env example_Config []))) =
       [stan_SetConnectionLostHandler (SugaredLogger [''nats-streaming'']),
        stan_Pings 15 5, stan_NatsConn (Some (NatsConnHandle 1)),
        stan_PubAckWait (5 * Second)]
   \<and> fst (snd (NewStanConn example_env example_Config [])) \<noteq> example_Config"
proof -
  have n: "NatsConn example_Config = []" and s: "StanConn example_Config = []"
    by (simp_all add: example_Config_def)
  have p: "(0::int) < sint (5 * Second)"
    by (simp add: Second_def)
  have a: "NatsConn (fst (snd (NewConn example_env example_Config []))) =
       [nats_ReconnectWait (10 * Second), nats_MaxReconnects 60,
        nats_DisconnectErrHandler (SugaredLogger [''nats'']) (10 * Minute),
        nats_ReconnectHandler (SugaredLogger [''nats'']),
        nats_ClosedHandler (SugaredLogger [''nats'']),
        nats_ErrorHandler (SugaredLogger [''nats''])]"
    by (simp add: NewConn_eq Let_def setupDefaultNatsConnOptions_eq example_Config_def)
  have b: "StanConn (fst (snd (NewStanConn example_env example_Config []))) =
       [stan_SetConnectionLostHandler (SugaredLogger [''nats-streaming'']),
        stan_Pings 15 5, stan_NatsConn (Some (NatsConnHandle 1)),
        stan_PubAckWait (5 * Second)]"
    using p
    by (simp add: NewStanConn_eq Let_def setupDefaultNatsConnOptions_eq example_Config_def
          example_env_def)
  from a n have a': "fst (snd (NewConn example_env example_Config [])) \<noteq> example_Config"
    by auto
  from b s have b': "fst (snd (NewStanConn example_env example_Config [])) \<noteq> example_Config"
    by auto
  from n a a' s b b' show ?thesis by blast
qed

end
